theory Spec2Isabelle
  imports Complex_Main "HOL-Library.Word"
begin

unbundle bit_operations_syntax

section \<open>Values, dictionaries and exceptions\<close>

text \<open>
  The module \<open>data_processor.py\<close> moves JSON values around in Python dictionaries.
  A JSON value is a \<open>jvalue\<close>; a Python float is an exact rational here (\<open>JNum\<close>), so
  the arithmetic of the quality score is read as exact arithmetic on the decimal constants
  of the source. A dictionary with string keys is a map. Text is a \<open>string\<close>, one
  \<open>char\<close> per code point below 256.
\<close>

datatype error =
    FileNotFoundError
  | JSONDecodeError
  | KeyError string
  | TypeError
  | ValueError

datatype jvalue =
    JNull
  | JBool bool
  | JInt int
  | JNum rat
  | JStr string
  | JList "jvalue list"
  | JDict "(string \<times> jvalue) list"

type_synonym dict = "string \<Rightarrow> jvalue option"

text \<open>A langchain \<open>Document\<close>: the chunk text and its metadata dictionary.\<close>

record document =
  page_content :: string
  metadata :: dict

text \<open>The dictionaries \<open>{'content': ..., 'metadata': ...}\<close> built by \<open>load_markdown_content\<close>.\<close>

record raw_document =
  content :: string
  raw_metadata :: dict

text \<open>\<open>d.get(k, default)\<close>.\<close>

definition dict_get :: "dict \<Rightarrow> string \<Rightarrow> jvalue \<Rightarrow> jvalue" where
  "dict_get m k dflt = (case m k of None \<Rightarrow> dflt | Some v \<Rightarrow> v)"

text \<open>Python truth value of a JSON value (\<open>if v:\<close>, \<open>not v\<close>).\<close>

fun truthy :: "jvalue \<Rightarrow> bool" where
  "truthy JNull = False"
| "truthy (JBool b) = b"
| "truthy (JInt n) = (n \<noteq> 0)"
| "truthy (JNum r) = (r \<noteq> 0)"
| "truthy (JStr s) = (s \<noteq> [])"
| "truthy (JList vs) = (vs \<noteq> [])"
| "truthy (JDict kvs) = (kvs \<noteq> [])"

text \<open>
  The number a value stands for in arithmetic and in comparisons with a float: \<open>bool\<close> is a
  subclass of \<open>int\<close> in Python; any other non-number raises \<open>TypeError\<close>.
\<close>

fun num_of :: "jvalue \<Rightarrow> error + rat" where
  "num_of (JInt n) = Inr (of_int n)"
| "num_of (JNum r) = Inr r"
| "num_of (JBool b) = Inr (if b then 1 else 0)"
| "num_of _ = Inl TypeError"

definition bind_result :: "error + 'a \<Rightarrow> ('a \<Rightarrow> error + 'b) \<Rightarrow> error + 'b" where
  "bind_result r f = (case r of Inl e \<Rightarrow> Inl e | Inr x \<Rightarrow> f x)"

text \<open>A \<open>for\<close> loop whose body may raise: the first exception ends the loop.\<close>

fun map_result :: "('a \<Rightarrow> error + 'b) \<Rightarrow> 'a list \<Rightarrow> error + 'b list" where
  "map_result f [] = Inr []"
| "map_result f (x # xs) =
     bind_result (f x) (\<lambda>y. bind_result (map_result f xs) (\<lambda>ys. Inr (y # ys)))"

section \<open>Text primitives\<close>

definition newline :: char where
  "newline = CHR 0x0A"

text \<open>\<open>str.isspace\<close> and the class \<open>\s\<close> of \<open>re\<close> on text patterns, for code points below 256.\<close>

definition isspace :: "char \<Rightarrow> bool" where
  "isspace c = (c \<in> set [CHR 0x09, CHR 0x0A, CHR 0x0B, CHR 0x0C, CHR 0x0D, CHR 0x1C,
                            CHR 0x1D, CHR 0x1E, CHR 0x1F, CHR 0x20, CHR 0x85, CHR 0xA0])"

text \<open>The class \<open>\w\<close> of \<open>re\<close> on text patterns, for code points below 256.\<close>

definition isword :: "char \<Rightarrow> bool" where
  "isword c = (let n = (of_char c :: nat) in
     (48 \<le> n \<and> n \<le> 57) \<or> (65 \<le> n \<and> n \<le> 90) \<or> n = 95 \<or> (97 \<le> n \<and> n \<le> 122)
     \<or> n \<in> set [170, 178, 179, 181, 185, 186, 188, 189, 190]
     \<or> (192 \<le> n \<and> n \<le> 214) \<or> (216 \<le> n \<and> n \<le> 246) \<or> 248 \<le> n)"

text \<open>\<open>str.lower\<close>, for code points below 256.\<close>

definition upper_letters :: string where
  "upper_letters =
     ''ABCDEFGHIJKLMNOPQRSTUVWXYZ'' @
      [CHR 0xC0, CHR 0xC1, CHR 0xC2, CHR 0xC3, CHR 0xC4, CHR 0xC5, CHR 0xC6, CHR 0xC7,
       CHR 0xC8, CHR 0xC9, CHR 0xCA, CHR 0xCB, CHR 0xCC, CHR 0xCD, CHR 0xCE, CHR 0xCF,
       CHR 0xD0, CHR 0xD1, CHR 0xD2, CHR 0xD3, CHR 0xD4, CHR 0xD5, CHR 0xD6, CHR 0xD8,
       CHR 0xD9, CHR 0xDA, CHR 0xDB, CHR 0xDC, CHR 0xDD, CHR 0xDE]"

definition lower_letters :: string where
  "lower_letters =
     ''abcdefghijklmnopqrstuvwxyz'' @
      [CHR 0xE0, CHR 0xE1, CHR 0xE2, CHR 0xE3, CHR 0xE4, CHR 0xE5, CHR 0xE6, CHR 0xE7,
       CHR 0xE8, CHR 0xE9, CHR 0xEA, CHR 0xEB, CHR 0xEC, CHR 0xED, CHR 0xEE, CHR 0xEF,
       CHR 0xF0, CHR 0xF1, CHR 0xF2, CHR 0xF3, CHR 0xF4, CHR 0xF5, CHR 0xF6, CHR 0xF8,
       CHR 0xF9, CHR 0xFA, CHR 0xFB, CHR 0xFC, CHR 0xFD, CHR 0xFE]"

definition lower_char :: "char \<Rightarrow> char" where
  "lower_char c = (case map_of (zip upper_letters lower_letters) c of Some l \<Rightarrow> l | None \<Rightarrow> c)"

definition lower :: "string \<Rightarrow> string" where
  "lower s = map lower_char s"

text \<open>\<open>s.strip(chars)\<close> with the stripped characters given as a predicate; \<open>s.strip()\<close>.\<close>

definition strip_chars :: "(char \<Rightarrow> bool) \<Rightarrow> string \<Rightarrow> string" where
  "strip_chars P s = rev (dropWhile P (rev (dropWhile P s)))"

definition strip :: "string \<Rightarrow> string" where
  "strip s = strip_chars isspace s"

text \<open>\<open>s.find(pat)\<close>: the index of the first occurrence; \<open>pat in s\<close>.\<close>

fun find_sub :: "string \<Rightarrow> string \<Rightarrow> nat option" where
  "find_sub pat [] = (if pat = [] then Some 0 else None)"
| "find_sub pat (c # cs) =
     (if take (length pat) (c # cs) = pat then Some 0 else map_option Suc (find_sub pat cs))"

definition contains :: "string \<Rightarrow> string \<Rightarrow> bool" where
  "contains pat s = (find_sub pat s \<noteq> None)"

text \<open>\<open>s.split(sep)\<close> for a separator of one character; \<open>sep.join(parts)\<close>.\<close>

fun split_on :: "char \<Rightarrow> string \<Rightarrow> string list" where
  "split_on sep [] = [[]]"
| "split_on sep (c # cs) =
     (case split_on sep cs of
        [] \<Rightarrow> [[]]
      | l # ls \<Rightarrow> if c = sep then [] # l # ls else (c # l) # ls)"


section \<open>The compiled patterns of \<open>TDSDataProcessor.__init__\<close>\<close>

text \<open>
  \<open>pattern.sub(repl, text)\<close> scans the text from the left; where the pattern matches, the
  match is replaced and the scan goes on behind it; elsewhere the character is kept. A
  matcher gives the length of the match that starts at the head of the rest of the text
  (none of the patterns matches the empty string).
\<close>

fun re_sub :: "(string \<Rightarrow> nat option) \<Rightarrow> string \<Rightarrow> string \<Rightarrow> string" where
  "re_sub m r [] = []"
| "re_sub m r (c # cs) =
     (case m (c # cs) of
        Some n \<Rightarrow> r @ re_sub m r (drop (n - 1) cs)
      | None \<Rightarrow> c # re_sub m r cs)"

text \<open>\<open>url_re = https?://\S+|www\.\S+\<close>\<close>

definition url_match :: "string \<Rightarrow> nat option" where
  "url_match s =
     (let run = (\<lambda>k. length (takeWhile (\<lambda>c. \<not> isspace c) (drop k s))) in
      if take 8 s = ''https://'' \<and> 0 < run 8 then Some (8 + run 8)
      else if take 7 s = ''http://'' \<and> 0 < run 7 then Some (7 + run 7)
      else if take 4 s = ''www.'' \<and> 0 < run 4 then Some (4 + run 4)
      else None)"

text \<open>\<open>mention_re = @\w+\b\<close>: after the longest run of word characters a word boundary holds.\<close>

definition mention_match :: "string \<Rightarrow> nat option" where
  "mention_match s =
     (case s of
        [] \<Rightarrow> None
      | c # cs \<Rightarrow>
          if c = CHR ''@'' \<and> 0 < length (takeWhile isword cs)
          then Some (1 + length (takeWhile isword cs)) else None)"

text \<open>\<open>code_block_re = ```.*?```\<close> with DOTALL: from a fence to the next fence.\<close>

definition code_block_match :: "string \<Rightarrow> nat option" where
  "code_block_match s =
     (if take 3 s = ''```'' then map_option (\<lambda>i. 3 + i + 3) (find_sub ''```'' (drop 3 s))
      else None)"

text \<open>
  \<open>discourse_quote_re = ^\[quote=.*?\].*?\[\/quote\]\s*\<close> with DOTALL and MULTILINE: at the
  start of a line, \<open>[quote=\<close>, the text up to the first \<open>]\<close>, the text up to the first
  \<open>[/quote]\<close> behind it, and the white space that follows.
\<close>

definition quote_match :: "string \<Rightarrow> nat option" where
  "quote_match s =
     (if take 7 s = ''[quote='' then
        (case find_sub '']'' (drop 7 s) of
           None \<Rightarrow> None
         | Some i \<Rightarrow>
             (case find_sub ''[/quote]'' (drop (7 + i + 1) s) of
                None \<Rightarrow> None
              | Some j \<Rightarrow>
                  Some (7 + i + 1 + j + 8
                        + length (takeWhile isspace (drop (7 + i + 1 + j + 8) s)))))
      else None)"

text \<open>
  The substitution of the quote pattern carries whether the scan stands at the start of a
  line: at the start of the text, and behind a newline of the text.
\<close>

fun quote_sub :: "bool \<Rightarrow> string \<Rightarrow> string" where
  "quote_sub bol [] = []"
| "quote_sub bol (c # cs) =
     (case (if bol then quote_match (c # cs) else None) of
        Some n \<Rightarrow> quote_sub (last (take n (c # cs)) = newline) (drop (n - 1) cs)
      | None \<Rightarrow> c # quote_sub (c = newline) cs)"

text \<open>\<open>whitespace_re = \s+\<close>, replaced by one space; the flag says the scan is inside a run.\<close>

fun whitespace_sub :: "bool \<Rightarrow> string \<Rightarrow> string" where
  "whitespace_sub in_run [] = []"
| "whitespace_sub in_run (c # cs) =
     (if isspace c
      then (if in_run then whitespace_sub True cs else CHR '' '' # whitespace_sub True cs)
      else c # whitespace_sub False cs)"

text \<open>
  \<open>empty_line_re = \n\s*\n\<close>, replaced by two newlines: a newline, and the white space
  behind it up to its last newline.
\<close>

definition empty_line_match :: "string \<Rightarrow> nat option" where
  "empty_line_match s =
     (case s of
        [] \<Rightarrow> None
      | c # cs \<Rightarrow>
          if c = newline \<and> newline \<in> set (takeWhile isspace cs)
          then Some (1 + length (takeWhile isspace cs)
                       - length (takeWhile (\<lambda>x. x \<noteq> newline) (rev (takeWhile isspace cs))))
          else None)"

section \<open>Library calls\<close>

text \<open>
  The third-party calls of the module are parameters of the model, one field of \<open>libs\<close>
  each:
  \<open>get_text\<close> is \<open>BeautifulSoup(text, 'html.parser').get_text()\<close>;
  \<open>md5_hexdigest\<close> is \<open>hashlib.md5(text.encode()).hexdigest()\<close>;
  \<open>header_split_text\<close> is \<open>self.header_splitter.split_text\<close>, the segments with their
  header metadata, or the exception that \<open>process_course_content\<close> catches;
  \<open>split_text\<close> gives the pieces into which \<open>self.markdown_splitter\<close> (chunk size 1200,
  overlap 200) cuts a text;
  \<open>urlparse_netloc\<close> is \<open>urlparse(u).netloc\<close>;
  \<open>strptime\<close> is \<open>datetime.strptime\<close>, only called on text, where the one exception it
  raises is \<open>ValueError\<close>, written \<open>None\<close>;
  \<open>fromisoformat\<close> is \<open>datetime.fromisoformat\<close>;
  \<open>py_str\<close> is \<open>str\<close>.
\<close>

record naive_datetime =
  year :: nat
  month :: nat
  day :: nat
  hour :: nat
  minute :: nat
  second :: nat
  microsecond :: nat

text \<open>A \<open>datetime\<close>: its fields, and its offset from UTC in seconds when it is aware.\<close>

type_synonym datetime = "naive_datetime \<times> int option"

record libs =
  get_text :: "string \<Rightarrow> string"
  md5_hexdigest :: "string \<Rightarrow> string"
  header_split_text :: "string \<Rightarrow> error + (string \<times> dict) list"
  split_text :: "string \<Rightarrow> string list"
  urlparse_netloc :: "jvalue \<Rightarrow> error + jvalue"
  strptime :: "string \<Rightarrow> string \<Rightarrow> naive_datetime option"
  fromisoformat :: "string \<Rightarrow> error + datetime"
  py_str :: "jvalue \<Rightarrow> string"

section \<open>\<open>clean_text\<close>\<close>

definition clean_text :: "libs \<Rightarrow> string \<Rightarrow> bool \<Rightarrow> string" where
  "clean_text L text is_discourse =
     (if text = [] then []
      else
        let t1 = get_text L text;
            t2 = (if is_discourse
                  then re_sub code_block_match ''[code]''
                         (re_sub mention_match [] (quote_sub True t1))
                  else t1);
            t3 = re_sub url_match [] t2;
            t4 = whitespace_sub False t3;
            t5 = re_sub empty_line_match [newline, newline] t4
        in strip t5)"

section \<open>\<open>load_markdown_content\<close>\<close>

text \<open>
  What the module reads: \<open>json_metadata f\<close> and \<open>json_posts f\<close> are \<open>open\<close> and
  \<open>json.load\<close> on the file \<open>f\<close> (an exception when the file is missing or is not JSON,
  else its list of objects); \<open>markdown_files\<close> holds the markdown files that exist, with
  their text.
\<close>

record env =
  json_metadata :: "string \<Rightarrow> error + dict list"
  json_posts :: "string \<Rightarrow> error + dict list"
  markdown_files :: "string \<Rightarrow> string option"

text \<open>\<open>os.path.join(a, b)\<close> and \<open>os.path.dirname(p)\<close> on POSIX paths.\<close>

definition path_join :: "string \<Rightarrow> string \<Rightarrow> string" where
  "path_join a b =
     (if take 1 b = ''/'' then b
      else if a = [] \<or> last a = CHR ''/'' then a @ b
      else a @ ''/'' @ b)"

definition dirname :: "string \<Rightarrow> string" where
  "dirname p =
     (let hd_part = rev (dropWhile (\<lambda>c. c \<noteq> CHR ''/'') (rev p));
          stripped = rev (dropWhile (\<lambda>c. c = CHR ''/'') (rev hd_part))
      in if stripped = [] then hd_part else stripped)"

text \<open>One line of the front matter: \<open>key, value = line.split(':', 1)\<close>.\<close>

definition front_matter_line :: "dict \<Rightarrow> string \<Rightarrow> dict" where
  "front_matter_line fm line =
     (if CHR '':'' \<in> set line
      then fm(strip (takeWhile (\<lambda>c. c \<noteq> CHR '':'') line) \<mapsto>
                JStr (strip_chars (\<lambda>c. c = CHR 0x22)
                        (strip (drop 1 (dropWhile (\<lambda>c. c \<noteq> CHR '':'') line)))))
      else fm)"

text \<open>
  The front matter and the body of a file: \<open>content.split('---', 2)\<close> has three parts
  when the text starts with \<open>---\<close> and holds a second \<open>---\<close>.
\<close>

definition split_front_matter :: "string \<Rightarrow> dict \<times> string" where
  "split_front_matter text =
     (if take 3 text = ''---'' then
        (case find_sub ''---'' (drop 3 text) of
           Some i \<Rightarrow>
             (foldl front_matter_line Map.empty (split_on newline (take i (drop 3 text))),
              drop (i + 3) (drop 3 text))
         | None \<Rightarrow> (Map.empty, text))
      else (Map.empty, text))"

definition load_item :: "string \<Rightarrow> dict \<Rightarrow> raw_document" where
  "load_item text item =
     (case split_front_matter text of
        (front_matter, body) \<Rightarrow>
          \<lparr>content = body,
           raw_metadata = (item ++ front_matter)
             (''source'' \<mapsto> JStr ''course_content'',
              ''content_type'' \<mapsto> JStr ''course_material'')\<rparr>)"

fun load_items :: "env \<Rightarrow> string \<Rightarrow> dict list \<Rightarrow> error + raw_document list" where
  "load_items E markdown_dir [] = Inr []"
| "load_items E markdown_dir (item # items) =
     (case item ''filename'' of
        None \<Rightarrow> Inl (KeyError ''filename'')
      | Some (JStr filename) \<Rightarrow>
          (case markdown_files E (path_join markdown_dir filename) of
             None \<Rightarrow> load_items E markdown_dir items
           | Some text \<Rightarrow>
               bind_result (load_items E markdown_dir items)
                 (\<lambda>documents. Inr (load_item text item # documents)))
      | Some _ \<Rightarrow> Inl TypeError)"

definition load_markdown_content :: "env \<Rightarrow> string \<Rightarrow> string \<Rightarrow> error + raw_document list" where
  "load_markdown_content E metadata_file markdown_dir =
     bind_result (json_metadata E metadata_file) (load_items E markdown_dir)"

section \<open>Chunking: \<open>process_course_content\<close> and \<open>process_discourse_posts\<close>\<close>

text \<open>
  \<open>markdown_splitter.create_documents([text], [metadata])\<close>, and
  \<open>markdown_splitter.split_documents([doc])\<close> on the text and metadata of \<open>doc\<close>: one
  document per piece of the size split, each with a copy of the metadata.
\<close>

definition create_documents :: "libs \<Rightarrow> string \<Rightarrow> dict \<Rightarrow> document list" where
  "create_documents L text md =
     map (\<lambda>piece. \<lparr>page_content = piece, metadata = md\<rparr>) (split_text L text)"

text \<open>The document built from one chunk of a header segment (lines 115 to 126).\<close>

definition course_chunk :: "libs \<Rightarrow> dict \<Rightarrow> document \<Rightarrow> document" where
  "course_chunk L md chunk =
     \<lparr>page_content = clean_text L (page_content chunk) False,
      metadata = (md ++ metadata chunk)
        (''doc_id'' \<mapsto> JStr (md5_hexdigest L (page_content chunk)))\<rparr>"

text \<open>
  The body of the loop over the documents: the header split, and the size split of the
  cleaned text when the header split raises.
\<close>

definition course_doc_chunks :: "libs \<Rightarrow> raw_document \<Rightarrow> document list" where
  "course_doc_chunks L doc =
     (case header_split_text L (content doc) of
        Inr header_splits \<Rightarrow>
          concat (map (\<lambda>(text, header_md).
                    map (course_chunk L (raw_metadata doc)) (create_documents L text header_md))
                  header_splits)
      | Inl e \<Rightarrow> create_documents L (clean_text L (content doc) False) (raw_metadata doc))"

definition process_course_content :: "libs \<Rightarrow> raw_document list \<Rightarrow> document list" where
  "process_course_content L documents = concat (map (course_doc_chunks L) documents)"

text \<open>
  The cleaned content of a post. \<open>clean_text\<close> returns the empty text for a value that is
  false; a true value that is not text cannot be parsed as markup.
\<close>

definition post_content :: "libs \<Rightarrow> dict \<Rightarrow> error + string" where
  "post_content L post =
     (case dict_get post ''content'' (JStr []) of
        JStr text \<Rightarrow> Inr (clean_text L text True)
      | v \<Rightarrow> if truthy v then Inl TypeError else Inr [])"

definition post_metadata :: "libs \<Rightarrow> dict \<Rightarrow> string \<Rightarrow> dict" where
  "post_metadata L post text =
     [''source'' \<mapsto> JStr ''discourse'',
      ''url'' \<mapsto> dict_get post ''url'' (JStr []),
      ''author'' \<mapsto> dict_get post ''author'' (JStr ''Anonymous''),
      ''created_at'' \<mapsto> dict_get post ''created_at'' (JStr []),
      ''updated_at'' \<mapsto> dict_get post ''updated_at'' (JStr []),
      ''topic_id'' \<mapsto> dict_get post ''topic_id'' (JStr []),
      ''post_id'' \<mapsto> dict_get post ''post_id'' (JStr []),
      ''topic_title'' \<mapsto> dict_get post ''topic_title'' (JStr []),
      ''is_accepted_answer'' \<mapsto> dict_get post ''is_accepted_answer'' (JBool False),
      ''reply_count'' \<mapsto> dict_get post ''reply_count'' (JInt 0),
      ''like_count'' \<mapsto> dict_get post ''like_count'' (JInt 0),
      ''tags'' \<mapsto> dict_get post ''tags'' (JList []),
      ''post_type'' \<mapsto>
         JStr (if truthy (dict_get post ''is_reply'' JNull) then ''answer'' else ''question''),
      ''doc_id'' \<mapsto> JStr (md5_hexdigest L text)]"

text \<open>The body of the loop over the posts.\<close>

definition post_chunks :: "libs \<Rightarrow> dict \<Rightarrow> error + document list" where
  "post_chunks L post =
     bind_result (post_content L post)
       (\<lambda>text. if text = [] \<or> length text < 25 then Inr []
               else Inr (create_documents L text (post_metadata L post text)))"

definition process_posts :: "libs \<Rightarrow> dict list \<Rightarrow> error + document list" where
  "process_posts L posts = bind_result (map_result (post_chunks L) posts) (\<lambda>cs. Inr (concat cs))"

definition process_discourse_posts :: "libs \<Rightarrow> env \<Rightarrow> string \<Rightarrow> error + document list" where
  "process_discourse_posts L E input_file =
     bind_result (json_posts E input_file) (process_posts L)"

section \<open>\<open>enhance_metadata\<close>\<close>

text \<open>\<open>round(x, 2)\<close>: to the nearest hundredth, a tie to the even one.\<close>

definition round_half_even :: "rat \<Rightarrow> int" where
  "round_half_even x =
     (let f = \<lfloor>x\<rfloor>; r = x - of_int f
      in if r < 1 / 2 then f else if 1 / 2 < r then f + 1 else if even f then f else f + 1)"

definition py_round2 :: "rat \<Rightarrow> rat" where
  "py_round2 x = of_int (round_half_even (x * 100)) / 100"

text \<open>Lines 182 to 184: the domain of the URL, when the metadata has one.\<close>

definition add_domain :: "libs \<Rightarrow> document \<Rightarrow> error + document" where
  "add_domain L doc =
     (case metadata doc ''url'' of
        None \<Rightarrow> Inr doc
      | Some u \<Rightarrow>
          bind_result (urlparse_netloc L u)
            (\<lambda>netloc. Inr (doc\<lparr>metadata := (metadata doc)(''domain'' \<mapsto> netloc)\<rparr>)))"

text \<open>Lines 192 to 194: the score before the contributions of likes and replies.\<close>

definition base_score :: "dict \<Rightarrow> rat" where
  "base_score md =
     1 / 2 + (if truthy (dict_get md ''is_accepted_answer'' JNull) then 3 / 10 else 0)"

text \<open>Lines 192 to 197: the quality score of a document that is not course content.\<close>

definition discourse_score :: "dict \<Rightarrow> error + rat" where
  "discourse_score md =
     bind_result (num_of (dict_get md ''like_count'' (JInt 0))) (\<lambda>likes.
       bind_result (num_of (dict_get md ''reply_count'' (JInt 0))) (\<lambda>replies.
         Inr (py_round2 (base_score md + min (1 / 5) (likes / 50) + min (1 / 10) (replies / 20)))))"

text \<open>Lines 200 to 203: the content type of a document that is not course content.\<close>

definition discourse_content_type :: "document \<Rightarrow> error + string" where
  "discourse_content_type doc =
     (case metadata doc ''post_type'' of
        None \<Rightarrow> Inl (KeyError ''post_type'')
      | Some (JStr post_type) \<Rightarrow>
          Inr ((if contains ''[code]'' (lower (page_content doc)) then ''code_'' else ''text_'')
               @ post_type)
      | Some _ \<Rightarrow> Inl TypeError)"

text \<open>Lines 187 to 203.\<close>

definition score_document :: "document \<Rightarrow> error + document" where
  "score_document doc =
     (case metadata doc ''source'' of
        None \<Rightarrow> Inl (KeyError ''source'')
      | Some src \<Rightarrow>
          if src = JStr ''course_content''
          then Inr (doc\<lparr>metadata := (metadata doc)
                      (''quality_score'' \<mapsto> JNum 1,
                       ''content_type'' \<mapsto> JStr ''course_material'')\<rparr>)
          else
            bind_result (discourse_score (metadata doc)) (\<lambda>score.
              bind_result (discourse_content_type doc) (\<lambda>ct.
                Inr (doc\<lparr>metadata := (metadata doc)
                       (''quality_score'' \<mapsto> JNum score,
                        ''content_type'' \<mapsto> JStr ct)\<rparr>))))"

text \<open>The body of the loop of \<open>enhance_metadata\<close>, and the loop.\<close>

definition enhance_document :: "libs \<Rightarrow> document \<Rightarrow> error + document" where
  "enhance_document L doc = bind_result (add_domain L doc) score_document"

definition enhance_metadata :: "libs \<Rightarrow> document list \<Rightarrow> error + document list" where
  "enhance_metadata L documents = map_result (enhance_document L) documents"


section \<open>\<open>filter_by_date\<close>\<close>

definition fmt_fraction :: string where
  "fmt_fraction = ''%Y-%m-%dT%H:%M:%S.%fZ''"

definition fmt_seconds :: string where
  "fmt_seconds = ''%Y-%m-%dT%H:%M:%SZ''"

text \<open>Lines 223 to 235: the two attempts to parse; \<open>None\<close> is the \<open>continue\<close>.\<close>

definition parse_created_at :: "libs \<Rightarrow> string \<Rightarrow> naive_datetime option" where
  "parse_created_at L created_at =
     (case strptime L created_at fmt_fraction of
        Some post_date \<Rightarrow> Some post_date
      | None \<Rightarrow> strptime L created_at fmt_seconds)"

text \<open>Naive datetimes are compared field by field, the year first.\<close>

fun lex_le :: "nat list \<Rightarrow> nat list \<Rightarrow> bool" where
  "lex_le [] ys = True"
| "lex_le (x # xs) [] = False"
| "lex_le (x # xs) (y # ys) = (x < y \<or> (x = y \<and> lex_le xs ys))"

definition field_list :: "naive_datetime \<Rightarrow> nat list" where
  "field_list d = [year d, month d, day d, hour d, minute d, second d, microsecond d]"

definition naive_le :: "naive_datetime \<Rightarrow> naive_datetime \<Rightarrow> bool" where
  "naive_le a b = lex_le (field_list a) (field_list b)"

text \<open>
  \<open>bound <= post_date\<close> and \<open>post_date <= bound\<close> for a naive \<open>post_date\<close>: comparing it
  with an aware datetime raises \<open>TypeError\<close>.
\<close>

definition bound_le :: "datetime \<Rightarrow> naive_datetime \<Rightarrow> error + bool" where
  "bound_le bound post_date =
     (case snd bound of None \<Rightarrow> Inr (naive_le (fst bound) post_date) | Some off \<Rightarrow> Inl TypeError)"

definition le_bound :: "naive_datetime \<Rightarrow> datetime \<Rightarrow> error + bool" where
  "le_bound post_date bound =
     (case snd bound of None \<Rightarrow> Inr (naive_le post_date (fst bound)) | Some off \<Rightarrow> Inl TypeError)"

text \<open>\<open>date_from <= post_date <= date_to\<close>: the second comparison only after the first holds.\<close>

definition in_range :: "datetime \<Rightarrow> naive_datetime \<Rightarrow> datetime \<Rightarrow> error + bool" where
  "in_range date_from post_date date_to =
     bind_result (bound_le date_from post_date)
       (\<lambda>lo. if lo then le_bound post_date date_to else Inr False)"

text \<open>The body of the loop (lines 219 to 238): whether the document is appended.\<close>

definition keep_document :: "libs \<Rightarrow> datetime \<Rightarrow> datetime \<Rightarrow> document \<Rightarrow> error + bool" where
  "keep_document L date_from date_to doc =
     (case metadata doc ''created_at'' of
        None \<Rightarrow> Inr False
      | Some v \<Rightarrow>
          if \<not> truthy v then Inr False
          else (case v of
                  JStr created_at \<Rightarrow>
                    (case parse_created_at L created_at of
                       None \<Rightarrow> Inr False
                     | Some post_date \<Rightarrow> in_range date_from post_date date_to)
                | _ \<Rightarrow> Inl TypeError))"

text \<open>A loop that appends the elements its body accepts.\<close>

fun filter_result :: "('a \<Rightarrow> error + bool) \<Rightarrow> 'a list \<Rightarrow> error + 'a list" where
  "filter_result f [] = Inr []"
| "filter_result f (x # xs) =
     bind_result (f x) (\<lambda>keep.
       bind_result (filter_result f xs) (\<lambda>ys. Inr (if keep then x # ys else ys)))"

text \<open>
  A bound is \<open>None\<close> or text; \<open>not date_from or not date_to\<close> holds when one of them is
  \<open>None\<close> or empty.
\<close>

definition filter_by_date ::
    "libs \<Rightarrow> document list \<Rightarrow> string option \<Rightarrow> string option \<Rightarrow> error + document list" where
  "filter_by_date L documents date_from date_to =
     (case (date_from, date_to) of
        (Some a, Some b) \<Rightarrow>
          if a = [] \<or> b = [] then Inr documents
          else
            bind_result (fromisoformat L a) (\<lambda>df.
              bind_result (fromisoformat L b) (\<lambda>dt.
                filter_result (keep_document L df dt) documents))
      | _ \<Rightarrow> Inr documents)"

text \<open>
  The date filter in the words of the specification: a chunk is retained when its
  \<open>created_at\<close> is text that parses under one of the two formats and the parsed timestamp
  lies between the bounds, inclusive. \<open>timestamp_is_text\<close> holds of a chunk whose
  \<open>created_at\<close> is absent, false or text.
\<close>

definition timestamp_is_text :: "document \<Rightarrow> bool" where
  "timestamp_is_text doc =
     (case metadata doc ''created_at'' of
        None \<Rightarrow> True
      | Some (JStr s) \<Rightarrow> True
      | Some v \<Rightarrow> \<not> truthy v)"

definition in_window :: "libs \<Rightarrow> naive_datetime \<Rightarrow> naive_datetime \<Rightarrow> document \<Rightarrow> bool" where
  "in_window L lo hi doc =
     (case metadata doc ''created_at'' of
        Some (JStr s) \<Rightarrow>
          s \<noteq> [] \<and>
          (case parse_created_at L s of
             None \<Rightarrow> False
           | Some ts \<Rightarrow> naive_le lo ts \<and> naive_le ts hi)
      | _ \<Rightarrow> False)"

section \<open>\<open>save_processed_data\<close> and \<open>run_pipeline\<close>\<close>

text \<open>Line 250: \<open>doc.metadata.get('quality_score', 0) >= min_quality\<close>.\<close>

definition meets_quality :: "rat \<Rightarrow> document \<Rightarrow> error + bool" where
  "meets_quality min_quality doc =
     bind_result (num_of (dict_get (metadata doc) ''quality_score'' (JInt 0)))
       (\<lambda>q. Inr (min_quality \<le> q))"

text \<open>
  The result is the file that is written: its path and the records of the JSON array,
  each record the text and the metadata of a document. \<open>os.makedirs\<close> raises on the empty
  path.
\<close>

definition save_processed_data ::
    "document list \<Rightarrow> string \<Rightarrow> rat \<Rightarrow> error + string \<times> document list" where
  "save_processed_data documents output_file min_quality =
     bind_result (filter_result (meets_quality min_quality) documents) (\<lambda>serializable.
       if dirname output_file = [] then Inl FileNotFoundError
       else Inr (output_file, serializable))"

text \<open>The configuration dictionary: a key that is absent is \<open>None\<close>.\<close>

record config =
  markdown_metadata :: "string option"
  markdown_dir :: "string option"
  discourse_input :: "string option"
  date_from :: "string option"
  date_to :: "string option"
  output_file :: "string option"
  min_quality :: "rat option"

definition course_stage :: "libs \<Rightarrow> env \<Rightarrow> config \<Rightarrow> error + document list" where
  "course_stage L E cfg =
     (case (markdown_metadata cfg, markdown_dir cfg) of
        (Some mf, Some md) \<Rightarrow>
          bind_result (load_markdown_content E mf md)
            (\<lambda>markdown_content. Inr (process_course_content L markdown_content))
      | _ \<Rightarrow> Inr [])"

definition discourse_stage :: "libs \<Rightarrow> env \<Rightarrow> config \<Rightarrow> error + document list" where
  "discourse_stage L E cfg =
     (case discourse_input cfg of
        None \<Rightarrow> Inr []
      | Some input_file \<Rightarrow>
          bind_result (process_discourse_posts L E input_file) (\<lambda>discourse_docs.
            (case (date_from cfg, date_to cfg) of
               (Some a, Some b) \<Rightarrow> filter_by_date L discourse_docs (Some a) (Some b)
             | _ \<Rightarrow> Inr discourse_docs)))"

text \<open>
  \<open>run_pipeline\<close> has no \<open>try\<close>: an exception of a stage leaves the function before
  \<open>save_processed_data\<close> is called. The console messages are not part of the model.
\<close>

definition run_pipeline :: "libs \<Rightarrow> env \<Rightarrow> config \<Rightarrow> error + string \<times> document list" where
  "run_pipeline L E cfg =
     bind_result (course_stage L E cfg) (\<lambda>course_docs.
       bind_result (discourse_stage L E cfg) (\<lambda>discourse_docs.
         bind_result (enhance_metadata L (course_docs @ discourse_docs)) (\<lambda>enhanced_docs.
           save_processed_data enhanced_docs
             (case output_file cfg of
                None \<Rightarrow> ''processed_data/tds_processed.json'' | Some f \<Rightarrow> f)
             (case min_quality cfg of None \<Rightarrow> 0 | Some q \<Rightarrow> q))))"

section \<open>\<open>VectorStoreBuilder.clean_metadata\<close>\<close>




section \<open>A concrete library for the worked examples\<close>

subsection \<open>MD5 (RFC 1321)\<close>

definition md5_K :: "32 word list" where
  "md5_K =
    [0xd76aa478, 0xe8c7b756, 0x242070db, 0xc1bdceee, 0xf57c0faf, 0x4787c62a, 0xa8304613, 0xfd469501,
     0x698098d8, 0x8b44f7af, 0xffff5bb1, 0x895cd7be, 0x6b901122, 0xfd987193, 0xa679438e, 0x49b40821,
     0xf61e2562, 0xc040b340, 0x265e5a51, 0xe9b6c7aa, 0xd62f105d, 0x02441453, 0xd8a1e681, 0xe7d3fbc8,
     0x21e1cde6, 0xc33707d6, 0xf4d50d87, 0x455a14ed, 0xa9e3e905, 0xfcefa3f8, 0x676f02d9, 0x8d2a4c8a,
     0xfffa3942, 0x8771f681, 0x6d9d6122, 0xfde5380c, 0xa4beea44, 0x4bdecfa9, 0xf6bb4b60, 0xbebfbc70,
     0x289b7ec6, 0xeaa127fa, 0xd4ef3085, 0x04881d05, 0xd9d4d039, 0xe6db99e5, 0x1fa27cf8, 0xc4ac5665,
     0xf4292244, 0x432aff97, 0xab9423a7, 0xfc93a039, 0x655b59c3, 0x8f0ccc92, 0xffeff47d, 0x85845dd1,
     0x6fa87e4f, 0xfe2ce6e0, 0xa3014314, 0x4e0811a1, 0xf7537e82, 0xbd3af235, 0x2ad7d2bb, 0xeb86d391]"

definition md5_shifts :: "nat list" where
  "md5_shifts =
    [7, 12, 17, 22, 7, 12, 17, 22, 7, 12, 17, 22, 7, 12, 17, 22,
     5, 9, 14, 20, 5, 9, 14, 20, 5, 9, 14, 20, 5, 9, 14, 20,
     4, 11, 16, 23, 4, 11, 16, 23, 4, 11, 16, 23, 4, 11, 16, 23,
     6, 10, 15, 21, 6, 10, 15, 21, 6, 10, 15, 21, 6, 10, 15, 21]"

type_synonym md5_state = "32 word \<times> 32 word \<times> 32 word \<times> 32 word"

definition md5_step :: "32 word list \<Rightarrow> md5_state \<Rightarrow> nat \<Rightarrow> md5_state" where
  "md5_step M st i =
     (case st of (a, b, c, d) \<Rightarrow>
        let f = (if i < 16 then (b AND c) OR (NOT b AND d)
                 else if i < 32 then (d AND b) OR (NOT d AND c)
                 else if i < 48 then b XOR c XOR d
                 else c XOR (b OR NOT d));
            g = (if i < 16 then i
                 else if i < 32 then (5 * i + 1) mod 16
                 else if i < 48 then (3 * i + 5) mod 16
                 else (7 * i) mod 16);
            x = f + a + md5_K ! i + M ! g
        in (d, b + word_rotl (md5_shifts ! i) x, b, c))"

definition md5_block :: "md5_state \<Rightarrow> 32 word list \<Rightarrow> md5_state" where
  "md5_block st M =
     (case st of (a0, b0, c0, d0) \<Rightarrow>
        (case foldl (md5_step M) st [0..<64] of
           (a, b, c, d) \<Rightarrow> (a0 + a, b0 + b, c0 + c, d0 + d)))"

text \<open>The \<open>k\<close> low bytes of a number, the lowest first.\<close>

definition le_bytes :: "nat \<Rightarrow> int \<Rightarrow> int list" where
  "le_bytes k n = map (\<lambda>i. (n div 256 ^ i) mod 256) [0..<k]"

definition md5_pad :: "int list \<Rightarrow> int list" where
  "md5_pad bs =
     bs @ [128] @ replicate ((119 - length bs mod 64) mod 64) 0
     @ le_bytes 8 ((8 * int (length bs)) mod 2 ^ 64)"

fun le_words :: "int list \<Rightarrow> 32 word list" where
  "le_words (b0 # b1 # b2 # b3 # bs) =
     word_of_int (b0 + 256 * b1 + 65536 * b2 + 16777216 * b3) # le_words bs"
| "le_words bs = []"

fun md5_blocks :: "md5_state \<Rightarrow> 32 word list \<Rightarrow> md5_state" where
  "md5_blocks st [] = st"
| "md5_blocks st (w # ws) = md5_blocks (md5_block st (take 16 (w # ws))) (drop 15 ws)"

definition hex_byte :: "int \<Rightarrow> string" where
  "hex_byte b = [''0123456789abcdef'' ! nat (b div 16), ''0123456789abcdef'' ! nat (b mod 16)]"

text \<open>\<open>s.encode()\<close>: UTF-8, for code points below 256.\<close>

definition utf8_encode :: "string \<Rightarrow> int list" where
  "utf8_encode s =
     concat (map (\<lambda>c. let n = (of_char c :: int)
                       in if n < 128 then [n] else [192 + n div 64, 128 + n mod 64]) s)"

text \<open>\<open>hashlib.md5(s.encode()).hexdigest()\<close>\<close>

definition md5_hex :: "string \<Rightarrow> string" where
  "md5_hex s =
     (case md5_blocks (0x67452301, 0xefcdab89, 0x98badcfe, 0x10325476)
             (le_words (md5_pad (utf8_encode s))) of
        (a, b, c, d) \<Rightarrow>
          concat (map hex_byte (concat (map (\<lambda>w. le_bytes 4 (uint w)) [a, b, c, d]))))"

subsection \<open>Timestamps\<close>

definition decimal :: "string \<Rightarrow> nat option" where
  "decimal s =
     (if s = [] then None
      else foldl (\<lambda>acc c.
                    case acc of
                      None \<Rightarrow> None
                    | Some a \<Rightarrow>
                        (let n = (of_char c :: nat)
                         in if 48 \<le> n \<and> n \<le> 57 then Some (10 * a + (n - 48)) else None))
             (Some 0) s)"

definition days_in_month :: "nat \<Rightarrow> nat \<Rightarrow> nat" where
  "days_in_month y m =
     (if m = 2 then (if y mod 4 = 0 \<and> (y mod 100 \<noteq> 0 \<or> y mod 400 = 0) then 29 else 28)
      else if m \<in> set [4, 6, 9, 11] then 30 else 31)"

text \<open>The \<open>datetime\<close> constructor: \<open>ValueError\<close> on a field out of range.\<close>

definition make_datetime :: "nat option list \<Rightarrow> naive_datetime option" where
  "make_datetime fs =
     (case those fs of
        Some [y, m, d, h, mi, s, us] \<Rightarrow>
          if 1 \<le> y \<and> y \<le> 9999 \<and> 1 \<le> m \<and> m \<le> 12 \<and> 1 \<le> d \<and> d \<le> days_in_month y m
             \<and> h < 24 \<and> mi < 60 \<and> s < 60 \<and> us < 1000000
          then Some \<lparr>year = y, month = m, day = d, hour = h, minute = mi, second = s,
                     microsecond = us\<rparr>
          else None
      | _ \<Rightarrow> None)"

text \<open>\<open>s[i:i+n]\<close>\<close>

definition seg :: "string \<Rightarrow> nat \<Rightarrow> nat \<Rightarrow> string" where
  "seg s i n = take n (drop i s)"

text \<open>
  \<open>datetime.strptime\<close> with the two formats of \<open>filter_by_date\<close>, on the zero-padded
  spelling \<open>YYYY-MM-DDTHH:MM:SS[.f{1,6}]Z\<close> (the library also reads fields without the
  padding); any other text or format is a \<open>ValueError\<close> here.
\<close>

definition example_strptime :: "string \<Rightarrow> string \<Rightarrow> naive_datetime option" where
  "example_strptime s fmt =
     (let n = length s;
          punctuated = (seg s 4 1 = ''-'' \<and> seg s 7 1 = ''-'' \<and> seg s 10 1 = ''T''
                        \<and> seg s 13 1 = '':'' \<and> seg s 16 1 = '':'');
          front = [decimal (seg s 0 4), decimal (seg s 5 2), decimal (seg s 8 2),
                   decimal (seg s 11 2), decimal (seg s 14 2), decimal (seg s 17 2)]
      in if fmt = fmt_seconds \<and> n = 20 \<and> punctuated \<and> seg s 19 1 = ''Z''
         then make_datetime (front @ [Some 0])
         else if fmt = fmt_fraction \<and> 22 \<le> n \<and> n \<le> 27 \<and> punctuated \<and> seg s 19 1 = ''.''
                 \<and> seg s (n - 1) 1 = ''Z''
         then make_datetime
                (front @ [map_option (\<lambda>v. v * 10 ^ (27 - n)) (decimal (seg s 20 (n - 21)))])
         else None)"

text \<open>
  \<open>datetime.fromisoformat\<close> on \<open>YYYY-MM-DD\<close>, \<open>YYYY-MM-DDTHH:MM:SS\<close> and
  \<open>YYYY-MM-DDTHH:MM:SS+HH:MM\<close> (or \<open>-HH:MM\<close>); other text is a \<open>ValueError\<close> here.
\<close>

definition example_fromisoformat :: "string \<Rightarrow> error + datetime" where
  "example_fromisoformat s =
     (let n = length s;
          date = [decimal (seg s 0 4), decimal (seg s 5 2), decimal (seg s 8 2)];
          time = [decimal (seg s 11 2), decimal (seg s 14 2), decimal (seg s 17 2), Some 0];
          dashes = (seg s 4 1 = ''-'' \<and> seg s 7 1 = ''-'');
          colons = (seg s 13 1 = '':'' \<and> seg s 16 1 = '':'');
          naive = (if n = 10 \<and> dashes then make_datetime (date @ [Some 0, Some 0, Some 0, Some 0])
                   else if (n = 19 \<or> n = 25) \<and> dashes \<and> colons then make_datetime (date @ time)
                   else None);
          offset = (if n = 25 \<and> seg s 22 1 = '':''
                    then (case (decimal (seg s 20 2), decimal (seg s 23 2)) of
                            (Some h, Some m) \<Rightarrow>
                              if h < 24 \<and> m < 60 then
                                (if seg s 19 1 = ''+'' then Some (int (3600 * h + 60 * m))
                                 else if seg s 19 1 = ''-'' then Some (- int (3600 * h + 60 * m))
                                 else None)
                              else None
                          | _ \<Rightarrow> None)
                    else None)
      in case naive of
           None \<Rightarrow> Inl ValueError
         | Some d \<Rightarrow> if n = 25 then (if offset = None then Inl ValueError else Inr (d, offset))
                     else Inr (d, None))"

subsection \<open>The library\<close>

text \<open>
  \<open>urlparse(u).netloc\<close> for text that is an absolute \<open>http\<close> or \<open>https\<close> URL or has no
  \<open>//\<close>; the examples have no other URL.
\<close>

definition example_netloc :: "jvalue \<Rightarrow> error + jvalue" where
  "example_netloc v =
     (case v of
        JStr u \<Rightarrow>
          Inr (JStr (if take 8 u = ''https://''
                     then takeWhile (\<lambda>c. c \<notin> set ''/?#'') (drop 8 u)
                     else if take 7 u = ''http://''
                     then takeWhile (\<lambda>c. c \<notin> set ''/?#'') (drop 7 u)
                     else []))
      | _ \<Rightarrow> Inl TypeError)"

text \<open>\<open>str(v)\<close> for text, \<open>None\<close> and booleans; the examples have no other value.\<close>

definition example_str :: "jvalue \<Rightarrow> string" where
  "example_str v =
     (case v of
        JStr s \<Rightarrow> s
      | JNull \<Rightarrow> ''None''
      | JBool b \<Rightarrow> (if b then ''True'' else ''False'')
      | _ \<Rightarrow> [])"

text \<open>
  The library of the examples. The texts of the examples have no markup, no heading line
  and fewer than 1200 characters, with single spaces between the words: on such a text
  \<open>get_text\<close> returns the text, the header split returns one segment without header
  metadata, and the size split returns the text as its only chunk.
\<close>

definition example_libs :: libs where
  "example_libs =
     \<lparr>get_text = (\<lambda>text. text),
      md5_hexdigest = md5_hex,
      header_split_text = (\<lambda>text. Inr [(text, Map.empty)]),
      split_text = (\<lambda>text. if strip text = [] then [] else [strip text]),
      urlparse_netloc = example_netloc,
      strptime = example_strptime,
      fromisoformat = example_fromisoformat,
      py_str = example_str\<rparr>"

section \<open>Worked inputs\<close>

definition example_post :: dict where
  "example_post =
     [''content'' \<mapsto> JStr ''Use pandas read_csv with the sep argument.'',
      ''url'' \<mapsto> JStr ''https://discourse.example.org/t/csv/42'',
      ''created_at'' \<mapsto> JStr ''2025-05-01T00:00:00Z'',
      ''is_accepted_answer'' \<mapsto> JBool True,
      ''like_count'' \<mapsto> JInt 100,
      ''reply_count'' \<mapsto> JInt 5,
      ''tags'' \<mapsto> JList [JStr ''python'', JStr ''pandas''],
      ''is_reply'' \<mapsto> JBool True]"

definition example_short_post :: dict where
  "example_short_post = [''content'' \<mapsto> JStr ''Thanks a lot!'']"

definition example_item :: dict where
  "example_item =
     [''title'' \<mapsto> JStr ''Details'',
      ''filename'' \<mapsto> JStr ''details.md'',
      ''original_url'' \<mapsto> JStr ''https://tds.s-anand.net/#/details'']"

definition example_course_doc :: raw_document where
  "example_course_doc = load_item ''Read https://tds.s-anand.net for details.'' example_item"

definition example_chunk :: document where
  "example_chunk =
     \<lparr>page_content = ''Use pandas read_csv with the sep argument.'',
      metadata = post_metadata example_libs example_post
                   ''Use pandas read_csv with the sep argument.''\<rparr>"

definition example_code_post :: dict where
  "example_code_post =
     [''content'' \<mapsto> JStr ''Try this: ```print(1)``` and tell me if it works.'',
      ''like_count'' \<mapsto> JInt 3]"

definition example_code_chunk :: document where
  "example_code_chunk =
     \<lparr>page_content = ''Try this: [code] and tell me if it works.'',
      metadata = post_metadata example_libs example_code_post
                   ''Try this: [code] and tell me if it works.''\<rparr>"

definition example_course_chunk :: document where
  "example_course_chunk =
     \<lparr>page_content = ''Read for details.'',
      metadata = (example_item(''source'' \<mapsto> JStr ''course_content'',
                               ''content_type'' \<mapsto> JStr ''course_material''))
                 (''doc_id'' \<mapsto> JStr ''eed0295cdd0a8c617a669a6f949aacdf'')\<rparr>"

definition example_accepted_post :: dict where
  "example_accepted_post =
     [''content'' \<mapsto> JStr ''Set the index column with index_col=0.'',
      ''created_at'' \<mapsto> JStr ''2025-02-10T08:30:00.250Z'',
      ''is_accepted_answer'' \<mapsto> JBool True,
      ''like_count'' \<mapsto> JInt 3,
      ''reply_count'' \<mapsto> JInt 1,
      ''is_reply'' \<mapsto> JBool True]"

definition example_accepted_chunk :: document where
  "example_accepted_chunk =
     \<lparr>page_content = ''Set the index column with index_col=0.'',
      metadata = post_metadata example_libs example_accepted_post
                   ''Set the index column with index_col=0.''\<rparr>"

definition example_env :: env where
  "example_env =
     \<lparr>json_metadata = (\<lambda>file. if file = ''metadata.json'' then Inr [example_item]
                               else Inl FileNotFoundError),
      json_posts = (\<lambda>file. Inl FileNotFoundError),
      markdown_files = [''markdown_files/details.md'' \<mapsto>
                          ''Read https://tds.s-anand.net for details.'']\<rparr>"

definition example_config :: config where
  "example_config =
     \<lparr>markdown_metadata = Some ''metadata.json'',
      markdown_dir = Some ''markdown_files'',
      discourse_input = Some ''discourse_posts.json'',
      date_from = Some ''2025-01-01'',
      date_to = Some ''2025-04-14'',
      output_file = Some ''processed_data/tds_combined.json'',
      min_quality = Some (3 / 10)\<rparr>"


section \<open>Auxiliary facts\<close>

lemmas text_defs =
  clean_text_def url_match_def mention_match_def code_block_match_def quote_match_def
  empty_line_match_def isspace_def isword_def strip_def strip_chars_def newline_def

lemma bind_result_Inl [simp]: "bind_result (Inl e) f = Inl e"
  by (simp add: bind_result_def)

lemma bind_result_Inr [simp]: "bind_result (Inr x) f = f x"
  by (simp add: bind_result_def)


lemma map_result_append:
  "map_result f (xs @ ys) =
     bind_result (map_result f xs) (\<lambda>as. bind_result (map_result f ys) (\<lambda>bs. Inr (as @ bs)))"
proof (induction xs)
  case Nil
  show ?case by (cases "map_result f ys") simp_all
next
  case (Cons x xs)
  show ?case
  proof (cases "f x")
    case (Inl e)
    then show ?thesis by simp
  next
    case (Inr y)
    then show ?thesis
      using Cons.IH by (cases "map_result f xs"; cases "map_result f ys") simp_all
  qed
qed

lemma whitespace_sub_chars:
  "c \<in> set (whitespace_sub in_run s) \<Longrightarrow> c = CHR '' '' \<or> \<not> isspace c"
  by (induction s arbitrary: in_run) (auto split: if_splits)

lemma whitespace_sub_no_newline: "newline \<notin> set (whitespace_sub in_run s)"
proof
  assume "newline \<in> set (whitespace_sub in_run s)"
  then have "newline = CHR '' '' \<or> \<not> isspace newline"
    by (rule whitespace_sub_chars)
  then show False
    by (simp add: newline_def isspace_def)
qed

lemma empty_line_sub_without_newline:
  "newline \<notin> set s \<Longrightarrow> re_sub empty_line_match r s = s"
  by (induction s) (auto simp: empty_line_match_def)

lemma set_strip: "set (strip s) \<subseteq> set s"
proof -
  have "set (dropWhile isspace (rev (dropWhile isspace s))) \<subseteq> set (rev (dropWhile isspace s))"
    by (auto dest: set_dropWhileD)
  also have "\<dots> \<subseteq> set s"
    by (auto dest: set_dropWhileD)
  finally show ?thesis
    by (simp add: strip_def strip_chars_def)
qed

lemma md5_example_raw:
  "md5_hex ''Read https://tds.s-anand.net for details.'' = ''eed0295cdd0a8c617a669a6f949aacdf''"
  by code_simp

lemma md5_example_clean:
  "md5_hex ''Read for details.'' = ''4072888309f8228795d73f5cd3e16067''"
  by code_simp

lemma md5_hexdigest_example: "md5_hexdigest example_libs = md5_hex"
  by (simp add: example_libs_def)

lemma example_course_doc_eq:
  "example_course_doc =
     \<lparr>content = ''Read https://tds.s-anand.net for details.'',
      raw_metadata = example_item(''source'' \<mapsto> JStr ''course_content'',
                                   ''content_type'' \<mapsto> JStr ''course_material'')\<rparr>"
  by (simp add: example_course_doc_def load_item_def split_front_matter_def)

lemma example_course_chunks:
  "process_course_content example_libs [example_course_doc] =
     [\<lparr>page_content = ''Read for details.'',
       metadata = (example_item(''source'' \<mapsto> JStr ''course_content'',
                                 ''content_type'' \<mapsto> JStr ''course_material''))
                   (''doc_id'' \<mapsto> JStr ''eed0295cdd0a8c617a669a6f949aacdf'')\<rparr>]"
  by (simp add: example_course_doc_eq process_course_content_def course_doc_chunks_def
        create_documents_def course_chunk_def text_defs example_libs_def md5_example_raw)

lemma post_chunks_cases:
  assumes "post_chunks L post = Inr chunks" and "post_content L post = Inr text"
  shows "chunks = [] \<or> chunks = create_documents L text (post_metadata L post text)"
  using assms by (auto simp: post_chunks_def split: if_splits)

lemma post_metadata_doc_id:
  "post_metadata L post text ''doc_id'' = Some (JStr (md5_hexdigest L text))"
  by (simp add: post_metadata_def)

lemma example_post_content:
  "post_content example_libs example_post = Inr ''Use pandas read_csv with the sep argument.''"
  by (simp add: post_content_def example_post_def dict_get_def text_defs example_libs_def)

lemma example_post_chunks:
  "post_chunks example_libs example_post =
     Inr [\<lparr>page_content = ''Use pandas read_csv with the sep argument.'',
           metadata = post_metadata example_libs example_post
                        ''Use pandas read_csv with the sep argument.''\<rparr>]"
  by (simp add: post_chunks_def example_post_content create_documents_def)
     (simp add: example_libs_def text_defs)



lemma round_half_even_of_int [simp]: "round_half_even (of_int n) = n"
  by (simp add: round_half_even_def)










lemma post_metadata_lookups:
  "post_metadata L post cleaned ''source'' = Some (JStr ''discourse'')"
  "post_metadata L post cleaned ''like_count'' = Some (dict_get post ''like_count'' (JInt 0))"
  "post_metadata L post cleaned ''reply_count'' = Some (dict_get post ''reply_count'' (JInt 0))"
  "post_metadata L post cleaned ''is_accepted_answer''
     = Some (dict_get post ''is_accepted_answer'' (JBool False))"
  "post_metadata L post cleaned ''post_type''
     = Some (JStr (if truthy (dict_get post ''is_reply'' JNull) then ''answer'' else ''question''))"
  "post_metadata L post cleaned ''url'' = Some (dict_get post ''url'' (JStr []))"
  "post_metadata L post cleaned ''created_at'' = Some (dict_get post ''created_at'' (JStr []))"
  "post_metadata L post cleaned ''tags'' = Some (dict_get post ''tags'' (JList []))"
  by (simp_all add: post_metadata_def)










lemma filter_result_filter:
  "(\<And>x. x \<in> set xs \<Longrightarrow> f x = Inr (p x)) \<Longrightarrow> filter_result f xs = Inr (filter p xs)"
  by (induction xs) simp_all

lemma keep_document_naive:
  assumes "timestamp_is_text doc"
  shows "keep_document L (lo, None) (hi, None) doc = Inr (in_window L lo hi doc)"
  using assms
  by (auto simp: keep_document_def timestamp_is_text_def in_window_def in_range_def
        bound_le_def le_bound_def split: option.splits jvalue.splits)

lemmas time_defs =
  example_strptime_def example_fromisoformat_def fmt_seconds_def fmt_fraction_def seg_def
  decimal_def make_datetime_def days_in_month_def

lemma example_created_at:
  "metadata example_chunk ''created_at'' = Some (JStr ''2025-05-01T00:00:00Z'')"
  "metadata example_accepted_chunk ''created_at'' = Some (JStr ''2025-02-10T08:30:00.250Z'')"
  "metadata example_code_chunk ''created_at'' = Some (JStr [])"
  by (simp_all add: example_chunk_def example_accepted_chunk_def example_code_chunk_def
        post_metadata_lookups example_post_def example_accepted_post_def example_code_post_def
        dict_get_def)

lemma example_parse:
  "parse_created_at example_libs ''2025-05-01T00:00:00Z''
     = Some \<lparr>year = 2025, month = 5, day = 1, hour = 0, minute = 0, second = 0, microsecond = 0\<rparr>"
  "parse_created_at example_libs ''2025-02-10T08:30:00.250Z''
     = Some \<lparr>year = 2025, month = 2, day = 10, hour = 8, minute = 30, second = 0,
             microsecond = 250000\<rparr>"
  by (simp_all add: parse_created_at_def example_libs_def time_defs)

lemma example_bounds:
  "fromisoformat example_libs ''2025-01-01''
     = Inr (\<lparr>year = 2025, month = 1, day = 1, hour = 0, minute = 0, second = 0, microsecond = 0\<rparr>,
            None)"
  "fromisoformat example_libs ''2025-04-14''
     = Inr (\<lparr>year = 2025, month = 4, day = 14, hour = 0, minute = 0, second = 0, microsecond = 0\<rparr>,
            None)"
  "fromisoformat example_libs ''2025-01-01T00:00:00+00:00''
     = Inr (\<lparr>year = 2025, month = 1, day = 1, hour = 0, minute = 0, second = 0, microsecond = 0\<rparr>,
            Some 0)"
  "fromisoformat example_libs ''2025-12-31T00:00:00+00:00''
     = Inr (\<lparr>year = 2025, month = 12, day = 31, hour = 0, minute = 0, second = 0,
             microsecond = 0\<rparr>, Some 0)"
  by (simp_all add: example_libs_def time_defs)

lemma example_course_stage:
  "course_stage example_libs example_env example_config = Inr [example_course_chunk]"
proof -
  have "load_markdown_content example_env ''metadata.json'' ''markdown_files''
          = Inr [example_course_doc]"
    by (simp add: load_markdown_content_def example_env_def example_item_def path_join_def
          example_course_doc_def)
  then show ?thesis
    by (simp add: course_stage_def example_config_def example_course_chunks
          example_course_chunk_def)
qed





section \<open>Claims about the forum stage\<close>

text \<open>
  C10. A forum post whose cleaned content is empty or shorter than 25 characters produces
  no chunk: the loop of \<open>process_discourse_posts\<close> skips it, and the output of the stage
  is the output for the list of posts without it.
\<close>

theorem short_post_yields_no_chunks:
  assumes "post_content L post = Inr text" and "length text < 25"
  shows "post_chunks L post = Inr []
       \<and> process_posts L (before @ post # after) = process_posts L (before @ after)"
proof -
  have none: "post_chunks L post = Inr []"
    using assms by (simp add: post_chunks_def)
  have "map_result (post_chunks L) (post # after)
          = bind_result (map_result (post_chunks L) after) (\<lambda>cs. Inr ([] # cs))"
    using none by simp
  then have "process_posts L (before @ post # after) = process_posts L (before @ after)"
    unfolding process_posts_def map_result_append
    by (cases "map_result (post_chunks L) before"; cases "map_result (post_chunks L) after")
       simp_all
  with none show ?thesis by simp
qed

theorem short_post_yields_no_chunks_witness:
  "post_chunks example_libs example_short_post = Inr []
   \<and> process_posts example_libs [example_post, example_short_post]
       = process_posts example_libs [example_post]"
  using short_post_yields_no_chunks
          [of example_libs example_short_post "''Thanks a lot!''" "[example_post]" "[]"]
  by (simp add: post_content_def example_short_post_def dict_get_def text_defs example_libs_def)

section \<open>Claims about the normalizer\<close>

text \<open>
  C9. The claim has the normalizer collapse every run of blank lines to exactly one blank
  line. \<open>clean_text\<close> replaces every run of white space by one space before it applies
  \<open>empty_line_re\<close>, so no newline is left for that pattern: three newlines between two
  paragraphs become one space, and the result of \<open>clean_text\<close> never holds a newline.
\<close>

theorem clean_text_leaves_no_blank_line:
  "clean_text example_libs ''para one\<newline>\<newline>\<newline>para two'' False = ''para one para two''
   \<and> newline \<notin> set (clean_text L text is_discourse)"
proof
  show "clean_text example_libs ''para one\<newline>\<newline>\<newline>para two'' False = ''para one para two''"
    by (simp add: text_defs example_libs_def)
next
  show "newline \<notin> set (clean_text L text is_discourse)"
  proof (cases "text = []")
    case True
    then show ?thesis by (simp add: clean_text_def)
  next
    case False
    define t3 where "t3 = re_sub url_match []
        (if is_discourse
         then re_sub code_block_match ''[code]'' (re_sub mention_match [] (quote_sub True (get_text L text)))
         else get_text L text)"
    have eq: "clean_text L text is_discourse
                = strip (re_sub empty_line_match [newline, newline] (whitespace_sub False t3))"
      using False by (simp add: clean_text_def t3_def Let_def)
    have "re_sub empty_line_match [newline, newline] (whitespace_sub False t3)
            = whitespace_sub False t3"
      by (rule empty_line_sub_without_newline) (rule whitespace_sub_no_newline)
    with eq have "set (clean_text L text is_discourse) \<subseteq> set (whitespace_sub False t3)"
      using set_strip by simp
    then show ?thesis
      using whitespace_sub_no_newline by blast
  qed
qed

section \<open>Claims about the document identifier\<close>

text \<open>
  C1, as stated, fails: the course chunk of the text
  \<open>Read https://tds.s-anand.net for details.\<close> is stored with the cleaned text
  \<open>Read for details.\<close> and with the digest of the text before cleaning, which is not the
  digest of the stored text.
\<close>

theorem doc_id_is_not_hash_of_page_content:
  "length (process_course_content example_libs [example_course_doc]) = 1
   \<and> page_content (hd (process_course_content example_libs [example_course_doc]))
       = ''Read for details.''
   \<and> metadata (hd (process_course_content example_libs [example_course_doc])) ''doc_id''
       = Some (JStr ''eed0295cdd0a8c617a669a6f949aacdf'')
   \<and> md5_hexdigest example_libs ''Read for details.'' = ''4072888309f8228795d73f5cd3e16067''"
  by (simp add: example_course_chunks md5_example_clean md5_hexdigest_example)

text \<open>
  C1, amended. The \<open>doc_id\<close> of a forum chunk is the digest of the whole cleaned content of
  its post; the \<open>doc_id\<close> of a course chunk of the header-split path is the digest of the
  piece of the size split it was made from, and its text is that piece cleaned. In both
  cases the identifier is a function of text alone.
\<close>

theorem doc_id_hashes_source_text:
  "(post_chunks L post = Inr chunks \<and> post_content L post = Inr text \<and> chunk \<in> set chunks
      \<longrightarrow> metadata chunk ''doc_id'' = Some (JStr (md5_hexdigest L text)))
   \<and> (header_split_text L (content doc) = Inr segments \<and> chunk' \<in> set (course_doc_chunks L doc)
      \<longrightarrow> (\<exists>segment \<in> set segments. \<exists>piece \<in> set (split_text L (fst segment)).
             page_content chunk' = clean_text L piece False
             \<and> metadata chunk' ''doc_id'' = Some (JStr (md5_hexdigest L piece))))"
proof (intro conjI impI)
  assume a: "post_chunks L post = Inr chunks \<and> post_content L post = Inr text \<and> chunk \<in> set chunks"
  then have "chunks = create_documents L text (post_metadata L post text)"
    using post_chunks_cases by fastforce
  with a have "metadata chunk = post_metadata L post text"
    by (auto simp: create_documents_def)
  then show "metadata chunk ''doc_id'' = Some (JStr (md5_hexdigest L text))"
    by (simp add: post_metadata_doc_id)
next
  assume b: "header_split_text L (content doc) = Inr segments \<and> chunk' \<in> set (course_doc_chunks L doc)"
  then obtain seg_text header_md piece where
    seg: "(seg_text, header_md) \<in> set segments" and
    piece: "piece \<in> set (split_text L seg_text)" and
    c: "chunk' = course_chunk L (raw_metadata doc) \<lparr>page_content = piece, metadata = header_md\<rparr>"
    by (auto simp: course_doc_chunks_def create_documents_def)
  have "page_content chunk' = clean_text L piece False
        \<and> metadata chunk' ''doc_id'' = Some (JStr (md5_hexdigest L piece))"
    by (simp add: c course_chunk_def)
  with seg piece show "\<exists>segment \<in> set segments. \<exists>piece \<in> set (split_text L (fst segment)).
             page_content chunk' = clean_text L piece False
             \<and> metadata chunk' ''doc_id'' = Some (JStr (md5_hexdigest L piece))"
    by force
qed

theorem doc_id_hashes_source_text_witness:
  "metadata \<lparr>page_content = ''Use pandas read_csv with the sep argument.'',
             metadata = post_metadata example_libs example_post
                          ''Use pandas read_csv with the sep argument.''\<rparr> ''doc_id''
     = Some (JStr (md5_hexdigest example_libs ''Use pandas read_csv with the sep argument.''))
   \<and> (\<exists>segment \<in> set [(''Read https://tds.s-anand.net for details.'', Map.empty :: dict)].
        \<exists>piece \<in> set (split_text example_libs (fst segment)).
          page_content (hd (process_course_content example_libs [example_course_doc]))
            = clean_text example_libs piece False
          \<and> metadata (hd (process_course_content example_libs [example_course_doc])) ''doc_id''
            = Some (JStr (md5_hexdigest example_libs piece)))"
proof -
  let ?chunk = "\<lparr>page_content = ''Use pandas read_csv with the sep argument.'',
                 metadata = post_metadata example_libs example_post
                              ''Use pandas read_csv with the sep argument.''\<rparr>"
  let ?segments = "[(''Read https://tds.s-anand.net for details.'', Map.empty :: dict)]"
  let ?chunk' = "hd (process_course_content example_libs [example_course_doc])"
  have h: "header_split_text example_libs (content example_course_doc) = Inr ?segments"
    by (simp add: example_course_doc_eq example_libs_def)
  have m: "?chunk' \<in> set (course_doc_chunks example_libs example_course_doc)"
    using example_course_chunks by (simp add: process_course_content_def)
  have p: "post_chunks example_libs example_post = Inr [?chunk] \<and>
           post_content example_libs example_post
             = Inr ''Use pandas read_csv with the sep argument.'' \<and> ?chunk \<in> set [?chunk]"
    using example_post_chunks example_post_content by simp
  note T = doc_id_hashes_source_text
            [of example_libs example_post "[?chunk]"
                "''Use pandas read_csv with the sep argument.''" ?chunk
                example_course_doc ?segments ?chunk']
  show ?thesis
    by (rule conjI [OF T [THEN conjunct1, THEN mp, OF p]
                       T [THEN conjunct2, THEN mp, OF conjI [OF h m]]])
qed

section \<open>Claims about the quality score and the content type\<close>








section \<open>Claims about the date filter\<close>

text \<open>
  C3, as stated, fails for bounds that carry a UTC offset: \<open>fromisoformat\<close> makes them
  aware datetimes, \<open>strptime\<close> makes the timestamp of a post a naive one, and comparing
  the two raises \<open>TypeError\<close>. The chunk below parses and lies between the bounds, and the
  filter raises instead of retaining it.
\<close>

theorem filter_by_date_raises_on_aware_bounds:
  "parse_created_at example_libs ''2025-05-01T00:00:00Z''
     = Some \<lparr>year = 2025, month = 5, day = 1, hour = 0, minute = 0, second = 0, microsecond = 0\<rparr>
   \<and> metadata example_chunk ''created_at'' = Some (JStr ''2025-05-01T00:00:00Z'')
   \<and> filter_by_date example_libs [example_chunk]
         (Some ''2025-01-01T00:00:00+00:00'') (Some ''2025-12-31T00:00:00+00:00'')
       = Inl TypeError"
  by (simp add: example_parse example_created_at filter_by_date_def example_bounds
        keep_document_def in_range_def bound_le_def)

text \<open>
  C3, amended. When a bound is \<open>None\<close> or empty, the filter returns its input. When both
  bounds are text that \<open>fromisoformat\<close> reads as datetimes without a UTC offset, and every
  \<open>created_at\<close> is absent, false or text, the filter returns exactly the chunks whose
  \<open>created_at\<close> parses under one of the two formats to a timestamp between the bounds,
  inclusive, in their order; the other chunks are dropped.
\<close>

theorem filter_by_date_window:
  "((a = None \<or> a = Some [] \<or> b = None \<or> b = Some [])
      \<longrightarrow> filter_by_date L docs a b = Inr docs)
   \<and> (lo_text \<noteq> [] \<and> hi_text \<noteq> []
      \<and> fromisoformat L lo_text = Inr (lo, None) \<and> fromisoformat L hi_text = Inr (hi, None)
      \<and> (\<forall>doc \<in> set docs. timestamp_is_text doc)
      \<longrightarrow> filter_by_date L docs (Some lo_text) (Some hi_text)
            = Inr (filter (in_window L lo hi) docs))"
proof (intro conjI impI)
  assume "a = None \<or> a = Some [] \<or> b = None \<or> b = Some []"
  then show "filter_by_date L docs a b = Inr docs"
    by (auto simp: filter_by_date_def split: option.splits)
next
  assume h: "lo_text \<noteq> [] \<and> hi_text \<noteq> []
      \<and> fromisoformat L lo_text = Inr (lo, None) \<and> fromisoformat L hi_text = Inr (hi, None)
      \<and> (\<forall>doc \<in> set docs. timestamp_is_text doc)"
  then have "filter_result (keep_document L (lo, None) (hi, None)) docs
               = Inr (filter (in_window L lo hi) docs)"
    by (intro filter_result_filter keep_document_naive) simp
  with h show "filter_by_date L docs (Some lo_text) (Some hi_text)
                 = Inr (filter (in_window L lo hi) docs)"
    by (simp add: filter_by_date_def)
qed

theorem filter_by_date_window_witness:
  "filter_by_date example_libs [example_chunk] None (Some ''2025-04-14'') = Inr [example_chunk]
   \<and> filter_by_date example_libs [example_chunk, example_accepted_chunk, example_code_chunk]
         (Some ''2025-01-01'') (Some ''2025-04-14'')
       = Inr [example_accepted_chunk]"
proof -
  let ?lo = "\<lparr>year = 2025, month = 1, day = 1, hour = 0, minute = 0, second = 0, microsecond = 0\<rparr>"
  let ?hi = "\<lparr>year = 2025, month = 4, day = 14, hour = 0, minute = 0, second = 0, microsecond = 0\<rparr>"
  let ?docs = "[example_chunk, example_accepted_chunk, example_code_chunk]"
  have texts: "\<forall>doc \<in> set ?docs. timestamp_is_text doc"
    by (simp add: timestamp_is_text_def example_created_at)
  have window: "filter (in_window example_libs ?lo ?hi) ?docs = [example_accepted_chunk]"
    by (simp add: in_window_def example_created_at example_parse naive_le_def field_list_def)
  have noop: "filter_by_date example_libs [example_chunk] None (Some ''2025-04-14'')
                = Inr [example_chunk]"
    using filter_by_date_window [of None "Some ''2025-04-14''" example_libs "[example_chunk]"]
    by simp
  have "filter_by_date example_libs ?docs (Some ''2025-01-01'') (Some ''2025-04-14'')
          = Inr (filter (in_window example_libs ?lo ?hi) ?docs)"
    using filter_by_date_window
            [of _ _ example_libs ?docs "''2025-01-01''" "''2025-04-14''" ?lo ?hi]
          example_bounds texts
    by simp
  with window noop show ?thesis
    by simp
qed

section \<open>Claims about the pipeline run\<close>

text \<open>
  C4, as stated, fails: \<open>run_pipeline\<close>, \<open>load_markdown_content\<close> and
  \<open>process_discourse_posts\<close> have no exception handler. In the run below the course stage
  produces a chunk, the forum file is missing, and the run raises \<open>FileNotFoundError\<close>:
  nothing is persisted.
\<close>

theorem run_aborts_after_course_stage_succeeded:
  "course_stage example_libs example_env example_config = Inr [example_course_chunk]
   \<and> json_posts example_env ''discourse_posts.json'' = Inl FileNotFoundError
   \<and> run_pipeline example_libs example_env example_config = Inl FileNotFoundError"
  unfolding run_pipeline_def example_course_stage
  by (simp add: discourse_stage_def process_discourse_posts_def example_env_def
        example_config_def)

text \<open>
  C4, amended. When the markdown metadata file of a configured course stage is missing or
  invalid, or the forum-posts file of a configured forum stage is missing or invalid after
  the course stage returned, \<open>run_pipeline\<close> raises that exception and writes no output.
\<close>

theorem missing_input_aborts_run:
  "(markdown_metadata cfg = Some metadata_file \<and> markdown_dir cfg = Some dir
      \<and> json_metadata E metadata_file = Inl e
      \<longrightarrow> run_pipeline L E cfg = Inl e)
   \<and> (course_stage L E cfg = Inr course_docs \<and> discourse_input cfg = Some input_file
      \<and> json_posts E input_file = Inl e'
      \<longrightarrow> run_pipeline L E cfg = Inl e')"
  by (simp add: run_pipeline_def course_stage_def discourse_stage_def load_markdown_content_def
        process_discourse_posts_def)

theorem missing_input_aborts_run_witness:
  "run_pipeline example_libs (example_env\<lparr>json_metadata := \<lambda>file. Inl JSONDecodeError\<rparr>)
       example_config = Inl JSONDecodeError
   \<and> run_pipeline example_libs example_env example_config = Inl FileNotFoundError"
proof -
  note T1 = missing_input_aborts_run
              [of example_config "''metadata.json''" "''markdown_files''"
                  "example_env\<lparr>json_metadata := \<lambda>file. Inl JSONDecodeError\<rparr>" JSONDecodeError
                  example_libs]
  note T2 = missing_input_aborts_run
              [of example_config _ _ example_env _ example_libs "[example_course_chunk]"
                  "''discourse_posts.json''" FileNotFoundError]
  have c: "markdown_metadata example_config = Some ''metadata.json''"
          "markdown_dir example_config = Some ''markdown_files''"
          "discourse_input example_config = Some ''discourse_posts.json''"
          "json_posts example_env ''discourse_posts.json'' = Inl FileNotFoundError"
    by (simp_all add: example_config_def example_env_def)
  show ?thesis
    using T1 T2 c example_course_stage by simp
qed

section \<open>Claims about persistence\<close>




end
